theory Spec2Isabelle
  imports Complex_Main "HOL-Library.Sublist"
begin

section \<open>BeBoPr R2 board configuration (bebopr_r2.c)\<close>

subsection \<open>Build-time selection\<close>

text \<open>
  The preprocessor symbols the file tests with \<open>#if defined\<close> / \<open>#ifdef\<close>, as one record
  fixed for a build. \<open>TB6560_DRIVERS\<close> and \<open>EEPROM_PATH\<close> are macros of eeprom.h and
  beaglebone.h that the file only uses; they are carried here as parameters of the build.
\<close>

record build =
  ADS1X15 :: bool
  BBB :: bool
  BONE_BRIDGE :: bool
  BONE_ENA_PATCH :: bool
  LASER_CUTTER :: bool
  TB6560_DRIVERS :: int
  EEPROM_PATH :: string

subsection \<open>Types of the headers\<close>

text \<open>
  Modelled from the spec: \<open>kernel_type\<close> is declared in a header that is not part of the
  source at hand. The spec gives the kernel generation as "enumerated {unknown,
  3.2-legacy, 3.8-device-tree, other}"; these are the four enumerators the file names.
\<close>

datatype kernel_type = e_kernel_unknown | e_kernel_3_2 | e_kernel_3_8 | e_kernel_other

text \<open>
  Modelled from the spec: the enumeration \<open>axis_e\<close> is declared in a header of the
  repository that is not part of the source at hand. The spec gives it as
  "one of a fixed enumerated set {X, Y, Z, E, ..., undefined}"; the four enumerators the
  file names are constructors, and \<open>other_axis n\<close> stands for every other value a caller
  can pass (the ones a \<open>switch\<close> sends to \<open>default\<close>).
\<close>

datatype axis_e = x_axis | y_axis | z_axis | e_axis | other_axis nat

text \<open>The tags generated by \<open>GENERATE_TAG\<close>: compared by identity, so an enumeration.\<close>

datatype tag =
    bed_thermistor | extruder_thermistor | spare_ain
  | pwm_laser_power
  | temp_extruder | temp_bed | heater_extruder | heater_bed
  | pwm_extruder | pwm_bed | pwm_fan

text \<open>The two conversion functions of thermistor.h that the temperature table refers to.\<close>

datatype conversion_fn = bone_epcos_b5760g104f | bone_bed_thermistor_330k

text \<open>
  Modelled from the spec: the four record types are declared in analog.h, temp.h, pwm.h
  and heater.h, which are not part of the source at hand. The fields are the ones the
  spec's data model lists and the initialisers of the tables set.
\<close>

record analog_config_record =
  a_tag :: tag
  a_device_path :: string
  a_filter_length :: nat

record temp_config_record =
  t_tag :: tag
  t_source :: tag
  t_in_range_time :: nat
  t_conversion :: conversion_fn

record pwm_config_record =
  p_tag :: tag
  p_device_path :: string
  p_frequency :: nat

record pid_settings =
  FF_factor :: real
  FF_offset :: real
  P :: real
  I :: real
  D :: real
  I_limit :: real

record heater_config_record =
  h_tag :: tag
  h_analog_input :: tag
  h_analog_output :: tag
  h_pid :: pid_settings

subsection \<open>Calls that leave the file\<close>

text \<open>
  Every call into the operating system, the C library's \<open>stderr\<close> or another module of
  the program is recorded, in order, in the trace of the state. The integers are C
  \<open>int\<close>s that the file only stores, compares and returns, never computes with, so they
  are \<open>int\<close> here.
\<close>

datatype event =
    Uname
  | Stderr string
  | Analog_config "analog_config_record list" nat
  | Temp_config "temp_config_record list" nat
  | Pwm_config "pwm_config_record list" nat
  | Heater_config "heater_config_record list" nat
  | Eeprom_get_step_io_config string
  | Gpio_write_int_value_to_file string int
  | Gpio_write_value_to_pin_file int string string

text \<open>
  What the outside answers. \<open>uname\<close> can be called several times in one run of a
  function, so its answer is a function of everything that happened before the call (the
  trace at that moment): the release string, or \<open>None\<close> when the call does not return 0.
  Each of the four subsystems and the EEPROM reader is called at most once in a run of
  \<open>bebopr_pre_init\<close>; its answer in that run is its \<open>int\<close> result.
\<close>

record env =
  uname :: "event list \<Rightarrow> string option"
  analog_config_result :: int
  temp_config_result :: int
  pwm_config_result :: int
  heater_config_result :: int
  eeprom_get_step_io_config_result :: int

subsection \<open>The file's static variables\<close>

text \<open>A \<open>double\<close> is only stored and returned by this file; it is a \<open>real\<close> here.\<close>

record state =
  use_pololu_drivers :: int
  current_kernel :: kernel_type
  kernel_release :: string
  x_cal_pos :: real
  y_cal_pos :: real
  z_cal_pos :: real
  e_axis_rel_mode :: int
  trace :: "event list"

text \<open>The initialisers of the static variables, and nothing happened yet.\<close>

definition initial_state :: state where
  "initial_state =
     \<lparr> use_pololu_drivers = 1,
       current_kernel = e_kernel_unknown,
       kernel_release = [],
       x_cal_pos = 0,
       y_cal_pos = 0,
       z_cal_pos = - (27955 / 10000000),
       e_axis_rel_mode = 0,
       trace = [] \<rparr>"

definition emit :: "event \<Rightarrow> state \<Rightarrow> state" where
  "emit e s = s\<lparr>trace := trace s @ [e]\<rparr>"

subsection \<open>Kernel variant detection\<close>

text \<open>
  \<open>strncmp\<close> of the C library on strings without their terminating NUL: the end of a
  list is where the NUL is read (character code 0).
\<close>

fun strncmp :: "string \<Rightarrow> string \<Rightarrow> nat \<Rightarrow> int" where
  "strncmp a b 0 = 0"
| "strncmp [] [] (Suc n) = 0"
| "strncmp [] (y # b) (Suc n) = - of_char y"
| "strncmp (x # a) [] (Suc n) = of_char x"
| "strncmp (x # a) (y # b) (Suc n) =
     (if x = y then strncmp a b n else of_char x - of_char y)"

text \<open>
  \<open>strncpy (kernel_release, u.release, 50)\<close> followed by the store of NUL at index 49
  leaves the first 49 characters of the release string.
\<close>

definition get_kernel_type :: "env \<Rightarrow> state \<Rightarrow> kernel_type \<times> state" where
  "get_kernel_type os s =
     (if current_kernel s = e_kernel_unknown then
        (case uname os (trace s) of
           Some release \<Rightarrow>
             (let s1 = emit Uname s;
                  s2 = (if strncmp release ''3.2'' 3 = 0 then s1\<lparr>current_kernel := e_kernel_3_2\<rparr>
                        else if strncmp release ''3.8'' 3 = 0 then s1\<lparr>current_kernel := e_kernel_3_8\<rparr>
                        else s1\<lparr>current_kernel := e_kernel_other\<rparr>);
                  s3 = s2\<lparr>kernel_release := take 49 release\<rparr>
              in (current_kernel s3, s3))
         | None \<Rightarrow> (let s1 = emit Uname s in (current_kernel s1, s1)))
      else (current_kernel s, s))"

subsection \<open>The configuration tables\<close>

definition AIN_CHANNEL_BED :: "build \<Rightarrow> string" where
  "AIN_CHANNEL_BED b =
     (if ADS1X15 b then ''/sys/bus/i2c/drivers/ads1015/1-0048/in5_input''
      else if \<not> BBB b then ''/sys/devices/platform/omap/tsc/ain2''
      else if BONE_BRIDGE b then ''/sys/bus/iio/devices/iio:device0/in_voltage4_raw''
      else ''/sys/bus/iio/devices/iio:device0/in_voltage1_raw'')"

definition AIN_CHANNEL_EXTR :: "build \<Rightarrow> string" where
  "AIN_CHANNEL_EXTR b =
     (if ADS1X15 b then ''/sys/bus/i2c/drivers/ads1015/1-0048/in6_input''
      else if \<not> BBB b then ''/sys/devices/platform/omap/tsc/ain6''
      else if BONE_BRIDGE b then ''/sys/bus/iio/devices/iio:device0/in_voltage5_raw''
      else ''/sys/bus/iio/devices/iio:device0/in_voltage5_raw'')"

definition AIN_CHANNEL_SPARE :: "build \<Rightarrow> string" where
  "AIN_CHANNEL_SPARE b =
     (if ADS1X15 b then ''/sys/bus/i2c/drivers/ads1015/1-0048/in4_input''
      else if \<not> BBB b then ''/sys/devices/platform/omap/tsc/ain4''
      else if BONE_BRIDGE b then ''/sys/bus/iio/devices/iio:device0/in_voltage6_raw''
      else ''/sys/bus/iio/devices/iio:device0/in_voltage3_raw'')"

definition AIN_SCALE :: "build \<Rightarrow> nat" where
  "AIN_SCALE b = (if ADS1X15 b then 2048 else 1800)"

definition PWM0_OUTPUT_PATH :: "build \<Rightarrow> string" where
  "PWM0_OUTPUT_PATH b =
     (if BBB b then ''/sys/devices/ocp.2/bebopr_pwm_J2.fixme'' else ''/sys/class/pwm/ehrpwm.2:1'')"

definition PWM1_OUTPUT_PATH :: "build \<Rightarrow> string" where
  "PWM1_OUTPUT_PATH b =
     (if BBB b then ''/sys/devices/ocp.2/bebopr_pwm_J3.fixme'' else ''/sys/class/pwm/ehrpwm.2:0'')"

definition PWM2_OUTPUT_PATH :: "build \<Rightarrow> string" where
  "PWM2_OUTPUT_PATH b =
     (if BBB b then ''/sys/devices/ocp.2/bebopr_pwm_J4.fixme'' else ''/sys/class/pwm/ehrpwm.1:0'')"

definition PWM0_OUTPUT_FREQ :: "build \<Rightarrow> nat" where
  "PWM0_OUTPUT_FREQ b = 0"

definition PWM1_OUTPUT_FREQ :: "build \<Rightarrow> nat" where
  "PWM1_OUTPUT_FREQ b = (if BBB b then 0 else 400)"

definition PWM2_OUTPUT_FREQ :: "build \<Rightarrow> nat" where
  "PWM2_OUTPUT_FREQ b = (if BBB b then 0 else 1)"

definition analog_config_data :: "build \<Rightarrow> analog_config_record list" where
  "analog_config_data b =
     [ \<lparr> a_tag = bed_thermistor, a_device_path = AIN_CHANNEL_BED b, a_filter_length = 0 \<rparr>,
       \<lparr> a_tag = spare_ain, a_device_path = AIN_CHANNEL_SPARE b, a_filter_length = 10 \<rparr>,
       \<lparr> a_tag = extruder_thermistor, a_device_path = AIN_CHANNEL_EXTR b, a_filter_length = 0 \<rparr> ]"

definition temp_config_data :: "build \<Rightarrow> temp_config_record list" where
  "temp_config_data b =
     (if LASER_CUTTER b then []
      else
        [ \<lparr> t_tag = temp_extruder, t_source = extruder_thermistor, t_in_range_time = 15000,
            t_conversion = bone_epcos_b5760g104f \<rparr>,
          \<lparr> t_tag = temp_bed, t_source = bed_thermistor, t_in_range_time = 15000,
            t_conversion = bone_bed_thermistor_330k \<rparr> ])"

definition pwm_config_data :: "build \<Rightarrow> pwm_config_record list" where
  "pwm_config_data b =
     (if LASER_CUTTER b then
        [ \<lparr> p_tag = pwm_laser_power, p_device_path = PWM1_OUTPUT_PATH b,
            p_frequency = PWM1_OUTPUT_FREQ b \<rparr> ]
      else
        [ \<lparr> p_tag = pwm_extruder, p_device_path = PWM1_OUTPUT_PATH b,
            p_frequency = PWM1_OUTPUT_FREQ b \<rparr>,
          \<lparr> p_tag = pwm_fan, p_device_path = PWM0_OUTPUT_PATH b,
            p_frequency = PWM0_OUTPUT_FREQ b \<rparr>,
          \<lparr> p_tag = pwm_bed, p_device_path = PWM2_OUTPUT_PATH b,
            p_frequency = PWM2_OUTPUT_FREQ b \<rparr> ])"

definition heater_config_data :: "build \<Rightarrow> heater_config_record list" where
  "heater_config_data b =
     (if LASER_CUTTER b then []
      else
        [ \<lparr> h_tag = heater_extruder, h_analog_input = temp_extruder,
            h_analog_output = pwm_extruder,
            h_pid = \<lparr> FF_factor = 33 / 100, FF_offset = 40, P = 15, I = 0, D = 0,
                      I_limit = 10 \<rparr> \<rparr>,
          \<lparr> h_tag = heater_bed, h_analog_input = temp_bed, h_analog_output = pwm_bed,
            h_pid = \<lparr> FF_factor = 103 / 100, FF_offset = 29, P = 25, I = 5 / 100, D = 0,
                      I_limit = 80 \<rparr> \<rparr> ])"

subsection \<open>The external subsystems, as the file calls them\<close>

text \<open>Each call is recorded and returns what the outside answers.\<close>

definition analog_config :: "env \<Rightarrow> analog_config_record list \<Rightarrow> nat \<Rightarrow> state \<Rightarrow> int \<times> state" where
  "analog_config os tbl n s = (analog_config_result os, emit (Analog_config tbl n) s)"

definition temp_config :: "env \<Rightarrow> temp_config_record list \<Rightarrow> nat \<Rightarrow> state \<Rightarrow> int \<times> state" where
  "temp_config os tbl n s = (temp_config_result os, emit (Temp_config tbl n) s)"

definition pwm_config :: "env \<Rightarrow> pwm_config_record list \<Rightarrow> nat \<Rightarrow> state \<Rightarrow> int \<times> state" where
  "pwm_config os tbl n s = (pwm_config_result os, emit (Pwm_config tbl n) s)"

definition heater_config :: "env \<Rightarrow> heater_config_record list \<Rightarrow> nat \<Rightarrow> state \<Rightarrow> int \<times> state" where
  "heater_config os tbl n s = (heater_config_result os, emit (Heater_config tbl n) s)"

definition eeprom_get_step_io_config :: "env \<Rightarrow> string \<Rightarrow> state \<Rightarrow> int \<times> state" where
  "eeprom_get_step_io_config os path s =
     (eeprom_get_step_io_config_result os, emit (Eeprom_get_step_io_config path) s)"

text \<open>The file discards what the two GPIO writers return.\<close>

definition gpio_write_int_value_to_file :: "string \<Rightarrow> int \<Rightarrow> state \<Rightarrow> state" where
  "gpio_write_int_value_to_file file v s = emit (Gpio_write_int_value_to_file file v) s"

definition gpio_write_value_to_pin_file :: "int \<Rightarrow> string \<Rightarrow> string \<Rightarrow> state \<Rightarrow> state" where
  "gpio_write_value_to_pin_file pin file v s = emit (Gpio_write_value_to_pin_file pin file v) s"

definition fprintf_stderr :: "string \<Rightarrow> state \<Rightarrow> state" where
  "fprintf_stderr text s = emit (Stderr text) s"

subsection \<open>Early initialisation\<close>

text \<open>The text of the last diagnostic of \<open>bebopr_pre_init\<close>, from \<open>use_pololu_drivers\<close>.\<close>

definition msg_stepper :: "int \<Rightarrow> string" where
  "msg_stepper use_pololu =
     ''Using stepper driver configuration: '' @ [CHR 0x27]
       @ (if use_pololu \<noteq> 0 then ''Pololu'' else ''TB6560'') @ [CHR 0x27, CHR 0x0A]"

text \<open>The part of \<open>bebopr_pre_init\<close> from the call of \<open>analog_config\<close> to \<open>done\<close>.\<close>

definition pre_init_tables :: "build \<Rightarrow> env \<Rightarrow> state \<Rightarrow> int \<times> state" where
  "pre_init_tables b os s0 =
     (let (result, s1) = analog_config os (analog_config_data b) (length (analog_config_data b)) s0 in
      if result < 0 then (result, fprintf_stderr (''analog_config failed!'' @ [CHR 0x0A]) s1)
      else
        let (result, s2) = temp_config os (temp_config_data b) (length (temp_config_data b)) s1 in
        if result < 0 then (result, fprintf_stderr (''temp_config failed!'' @ [CHR 0x0A]) s2)
        else
          let (result, s3) = pwm_config os (pwm_config_data b) (length (pwm_config_data b)) s2 in
          if result < 0 then (result, fprintf_stderr (''pwm_config failed!'' @ [CHR 0x0A]) s3)
          else
            let (result, s4) =
                  heater_config os (heater_config_data b) (length (heater_config_data b)) s3 in
            if result < 0 then (result, fprintf_stderr (''heater_config failed!'' @ [CHR 0x0A]) s4)
            else
              let (result, s5) = eeprom_get_step_io_config os (EEPROM_PATH b) s4;
                  s6 = (if result = TB6560_DRIVERS b then s5\<lparr>use_pololu_drivers := 0\<rparr> else s5);
                  s7 = fprintf_stderr (msg_stepper (use_pololu_drivers s6)) s6
              in (0, s7))"

text \<open>The text of \<open>options\<close> and of the formatted diagnostics.\<close>

definition options :: "build \<Rightarrow> string" where
  "options b =
     (if BONE_ENA_PATCH b then ''+EnablePatch'' else [])
       @ (if BONE_BRIDGE b then ''+Bridge'' else [])"

definition msg_not_compatible :: "build \<Rightarrow> string \<Rightarrow> string" where
  "msg_not_compatible b release =
     ''BeBoPr'' @ options b @ '' is not compatible with running on kernel version ''
       @ release @ ''.'' @ [CHR 0x0A]"

definition msg_configured :: "build \<Rightarrow> kernel_type \<Rightarrow> string \<Rightarrow> string" where
  "msg_configured b k release =
     ''BeBoPr'' @ options b @ '' configured for '' @ [CHR 0x27]
       @ (if k = e_kernel_3_8 then ''3.8'' else ''3.2'') @ [CHR 0x27]
       @ '' running on kernel version '' @ release @ ''.'' @ [CHR 0x0A]"

definition msg_bridge :: string where
  "msg_bridge = ''The Bridge is only supported with a device-tree kernel (3.8+)!'' @ [CHR 0x0A]"

definition bebopr_pre_init :: "build \<Rightarrow> env \<Rightarrow> state \<Rightarrow> int \<times> state" where
  "bebopr_pre_init b os s0 =
     (let (k1, s1) = get_kernel_type os s0 in
      if k1 = e_kernel_unknown then
        (- 1, fprintf_stderr (msg_not_compatible b (kernel_release s1)) s1)
      else
        let (k2, s2) = get_kernel_type os s1;
            s3 = fprintf_stderr (msg_configured b k2 (kernel_release s2)) s2
        in
          if BONE_BRIDGE b then
            (let (k3, s4) = get_kernel_type os s3 in
             if k3 = e_kernel_3_2 then (- 1, fprintf_stderr msg_bridge s4)
             else pre_init_tables b os s4)
          else pre_init_tables b os s3)"

subsection \<open>Limit switches, stepper drivers and axis constants\<close>

definition config_axis_has_min_limit_switch :: "axis_e \<Rightarrow> int" where
  "config_axis_has_min_limit_switch axis =
     (case axis of x_axis \<Rightarrow> 1 | y_axis \<Rightarrow> 1 | z_axis \<Rightarrow> 1 | _ \<Rightarrow> 0)"

definition config_axis_has_max_limit_switch :: "axis_e \<Rightarrow> int" where
  "config_axis_has_max_limit_switch axis =
     (case axis of x_axis \<Rightarrow> 0 | y_axis \<Rightarrow> 0 | z_axis \<Rightarrow> 1 | _ \<Rightarrow> 0)"

definition config_min_limit_switch_is_active_low :: "axis_e \<Rightarrow> int" where
  "config_min_limit_switch_is_active_low axis =
     (case axis of x_axis \<Rightarrow> 1 | y_axis \<Rightarrow> 1 | z_axis \<Rightarrow> 0 | _ \<Rightarrow> 0)"

definition config_max_limit_switch_is_active_low :: "axis_e \<Rightarrow> int" where
  "config_max_limit_switch_is_active_low axis =
     (case axis of x_axis \<Rightarrow> 0 | y_axis \<Rightarrow> 0 | z_axis \<Rightarrow> 1 | _ \<Rightarrow> 0)"

definition config_use_pololu_drivers :: "state \<Rightarrow> int" where
  "config_use_pololu_drivers s = use_pololu_drivers s"

text \<open>The branch of \<open>#if 0\<close> that is compiled (PRUSA); values in metres.\<close>

definition config_get_step_size :: "axis_e \<Rightarrow> real" where
  "config_get_step_size axis =
     (case axis of
        x_axis \<Rightarrow> 15 / 1000000
      | y_axis \<Rightarrow> 125 / 10000000
      | z_axis \<Rightarrow> 1953125 / 10000000000000
      | e_axis \<Rightarrow> 3345 / 1000000000
      | _ \<Rightarrow> 0)"

definition config_get_max_feed :: "axis_e \<Rightarrow> real" where
  "config_get_max_feed axis =
     (case axis of x_axis \<Rightarrow> 22500 | y_axis \<Rightarrow> 16000 | z_axis \<Rightarrow> 300 | e_axis \<Rightarrow> 3000 | _ \<Rightarrow> 0)"

definition config_get_max_accel :: "axis_e \<Rightarrow> real" where
  "config_get_max_accel axis =
     (case axis of x_axis \<Rightarrow> 3 | y_axis \<Rightarrow> 1 | z_axis \<Rightarrow> 1 | e_axis \<Rightarrow> 1 | _ \<Rightarrow> 0)"

definition config_reverse_axis :: "axis_e \<Rightarrow> int" where
  "config_reverse_axis axis =
     (case axis of x_axis \<Rightarrow> 1 | y_axis \<Rightarrow> 0 | z_axis \<Rightarrow> 0 | e_axis \<Rightarrow> 1 | _ \<Rightarrow> 0)"

text \<open>
  The accessors with an output parameter \<open>double* pos\<close> take what \<open>*pos\<close> holds before the
  call and return the \<open>int\<close> result together with what \<open>*pos\<close> holds after it.
\<close>

definition config_min_soft_limit :: "axis_e \<Rightarrow> real \<Rightarrow> int \<times> real" where
  "config_min_soft_limit axis pos =
     (case axis of x_axis \<Rightarrow> (1, 0) | y_axis \<Rightarrow> (1, 0) | z_axis \<Rightarrow> (1, 0) | _ \<Rightarrow> (0, pos))"

definition config_max_soft_limit :: "axis_e \<Rightarrow> real \<Rightarrow> int \<times> real" where
  "config_max_soft_limit axis pos =
     (case axis of x_axis \<Rightarrow> (1, 215) | y_axis \<Rightarrow> (1, 200) | z_axis \<Rightarrow> (1, 60) | _ \<Rightarrow> (0, pos))"

definition config_set_cal_pos :: "axis_e \<Rightarrow> real \<Rightarrow> state \<Rightarrow> int \<times> state" where
  "config_set_cal_pos axis pos s =
     (case axis of
        x_axis \<Rightarrow> (1, s\<lparr>x_cal_pos := pos\<rparr>)
      | y_axis \<Rightarrow> (1, s\<lparr>y_cal_pos := pos\<rparr>)
      | z_axis \<Rightarrow> (1, s\<lparr>z_cal_pos := pos\<rparr>)
      | _ \<Rightarrow> (0, s))"

definition config_min_switch_pos :: "state \<Rightarrow> axis_e \<Rightarrow> real \<Rightarrow> int \<times> real" where
  "config_min_switch_pos s axis pos =
     (case axis of
        x_axis \<Rightarrow> (1, x_cal_pos s)
      | y_axis \<Rightarrow> (1, y_cal_pos s)
      | z_axis \<Rightarrow> (1, z_cal_pos s)
      | _ \<Rightarrow> (0, pos))"

definition config_max_switch_pos :: "state \<Rightarrow> axis_e \<Rightarrow> real \<Rightarrow> int \<times> real" where
  "config_max_switch_pos s axis pos =
     (case axis of x_axis \<Rightarrow> (0, pos) | y_axis \<Rightarrow> (0, pos) | z_axis \<Rightarrow> (0, pos) | _ \<Rightarrow> (0, pos))"

definition config_get_home_release_feed :: "axis_e \<Rightarrow> real" where
  "config_get_home_release_feed axis =
     (case axis of x_axis \<Rightarrow> 150 | y_axis \<Rightarrow> 150 | z_axis \<Rightarrow> 150 | _ \<Rightarrow> 0)"

definition config_get_home_max_feed :: "axis_e \<Rightarrow> real" where
  "config_get_home_max_feed axis =
     (case axis of x_axis \<Rightarrow> 3000 | y_axis \<Rightarrow> 3000 | z_axis \<Rightarrow> 450 | _ \<Rightarrow> 0)"

definition config_set_e_axis_mode :: "int \<Rightarrow> state \<Rightarrow> int \<times> state" where
  "config_set_e_axis_mode relative s =
     (let old = e_axis_rel_mode s
      in (old, s\<lparr>e_axis_rel_mode := (if relative \<noteq> 0 then 1 else 0)\<rparr>))"

definition config_e_axis_is_always_relative :: "state \<Rightarrow> int" where
  "config_e_axis_is_always_relative s = e_axis_rel_mode s"

definition config_keep_alive_char :: char where
  "config_keep_alive_char = CHR 0x0A"

subsection \<open>I/O power\<close>

definition bebopr_post_init :: "build \<Rightarrow> env \<Rightarrow> state \<Rightarrow> int \<times> state" where
  "bebopr_post_init b os s0 =
     (let s3 =
            (if BONE_BRIDGE b \<or> BONE_ENA_PATCH b then
               (let (k, s1) = get_kernel_type os s0;
                    s2 = (if k = e_kernel_3_2 then
                            gpio_write_value_to_pin_file 66 ''direction'' ''out''
                              (gpio_write_int_value_to_file ''export'' 66 s1)
                          else s1)
                in gpio_write_value_to_pin_file 66 ''value'' ''0'' s2)
             else
               (let (k, s1) = get_kernel_type os s0;
                    s2 = (if k = e_kernel_3_2 then
                            gpio_write_value_to_pin_file 34 ''direction'' ''out''
                              (gpio_write_int_value_to_file ''export'' 34
                                 (gpio_write_value_to_pin_file 38 ''direction'' ''out''
                                    (gpio_write_int_value_to_file ''export'' 38 s1)))
                          else s1)
                in gpio_write_value_to_pin_file 34 ''value'' ''0''
                     (gpio_write_value_to_pin_file 38 ''value'' ''1'' s2)))
      in (0, fprintf_stderr (''Turned BEBOPR I/O power on'' @ [CHR 0x0A]) s3))"

definition bebopr_exit :: "build \<Rightarrow> env \<Rightarrow> state \<Rightarrow> state" where
  "bebopr_exit b os s0 =
     (let s3 =
            (if BONE_BRIDGE b \<or> BONE_ENA_PATCH b then
               (let s1 = gpio_write_value_to_pin_file 66 ''value'' ''1'' s0;
                    (k, s2) = get_kernel_type os s1
                in if k = e_kernel_3_2 then
                     gpio_write_int_value_to_file ''unexport'' 66
                       (gpio_write_value_to_pin_file 66 ''direction'' ''in'' s2)
                   else s2)
             else
               (let s1 = gpio_write_value_to_pin_file 34 ''value'' ''0''
                           (gpio_write_value_to_pin_file 38 ''value'' ''1'' s0);
                    (k, s2) = get_kernel_type os s1
                in if k = e_kernel_3_2 then
                     gpio_write_int_value_to_file ''unexport'' 34
                       (gpio_write_value_to_pin_file 34 ''direction'' ''in''
                          (gpio_write_int_value_to_file ''unexport'' 38
                             (gpio_write_value_to_pin_file 38 ''direction'' ''in'' s2)))
                   else s2))
      in fprintf_stderr (''Turned BEBOPR I/O power off'' @ [CHR 0x0A]) s3)"

subsection \<open>Reading a trace\<close>

text \<open>The calls that hand a configuration table to an external subsystem.\<close>

fun is_registration :: "event \<Rightarrow> bool" where
  "is_registration (Analog_config tbl n) = True"
| "is_registration (Temp_config tbl n) = True"
| "is_registration (Pwm_config tbl n) = True"
| "is_registration (Heater_config tbl n) = True"
| "is_registration e = False"

definition registration_calls :: "event list \<Rightarrow> event list" where
  "registration_calls t = filter is_registration t"

text \<open>The four calls as \<open>bebopr_pre_init\<close> makes them for a build.\<close>

definition analog_call :: "build \<Rightarrow> event" where
  "analog_call b = Analog_config (analog_config_data b) (length (analog_config_data b))"

definition temp_call :: "build \<Rightarrow> event" where
  "temp_call b = Temp_config (temp_config_data b) (length (temp_config_data b))"

definition pwm_call :: "build \<Rightarrow> event" where
  "pwm_call b = Pwm_config (pwm_config_data b) (length (pwm_config_data b))"

definition heater_call :: "build \<Rightarrow> event" where
  "heater_call b = Heater_config (heater_config_data b) (length (heater_config_data b))"

text \<open>
  The level of each GPIO line after a trace, from the levels before it: a write to the
  \<open>value\<close> file of a pin sets the level of that line; nothing else changes a level.
\<close>

fun gpio_effect :: "(int \<Rightarrow> string option) \<Rightarrow> event \<Rightarrow> (int \<Rightarrow> string option)" where
  "gpio_effect m (Gpio_write_value_to_pin_file pin file v) =
     (if file = ''value'' then m(pin \<mapsto> v) else m)"
| "gpio_effect m e = m"

definition line_levels :: "(int \<Rightarrow> string option) \<Rightarrow> event list \<Rightarrow> (int \<Rightarrow> string option)" where
  "line_levels m t = foldl gpio_effect m t"

subsection \<open>Sample builds and environments\<close>

text \<open>
  An environment whose \<open>uname\<close> answers as given and whose subsystems all return 0; the
  concrete runs below start from it.
\<close>

definition os_answering :: "(event list \<Rightarrow> string option) \<Rightarrow> env" where
  "os_answering u =
     \<lparr> uname = u, analog_config_result = 0, temp_config_result = 0, pwm_config_result = 0,
       heater_config_result = 0, eeprom_get_step_io_config_result = 0 \<rparr>"

text \<open>An operating system whose first \<open>uname\<close> fails and whose later ones succeed.\<close>

definition os_failing_once :: env where
  "os_failing_once = os_answering (\<lambda>t. if Uname \<in> set t then Some ''3.8.13-bone28'' else None)"

text \<open>An operating system whose release string has 60 characters.\<close>

definition os_long :: env where
  "os_long = os_answering
     (\<lambda>t. Some ''3.8.13-bone28-a-very-long-local-version-suffix-0123456789abc'')"

text \<open>
  Builds: the BeagleBone without Bridge and without Enable-Patch, the same with the
  Bridge, the same with the Enable-Patch. The values given to \<open>TB6560_DRIVERS\<close> and
  \<open>EEPROM_PATH\<close> are samples.
\<close>

definition stock_build :: build where
  "stock_build =
     \<lparr> ADS1X15 = False, BBB = False, BONE_BRIDGE = False, BONE_ENA_PATCH = False,
       LASER_CUTTER = False, TB6560_DRIVERS = 1,
       EEPROM_PATH = ''/sys/class/i2c-adapter/i2c-3/3-0054/eeprom'' \<rparr>"

definition bridge_build :: build where
  "bridge_build = stock_build\<lparr>BONE_BRIDGE := True\<rparr>"

definition ena_patch_build :: build where
  "ena_patch_build = stock_build\<lparr>BONE_ENA_PATCH := True\<rparr>"

text \<open>An environment whose \<open>uname\<close> always answers the same and whose other answers are given.\<close>

definition os_with :: "string option \<Rightarrow> int \<Rightarrow> int \<Rightarrow> int \<Rightarrow> int \<Rightarrow> int \<Rightarrow> env" where
  "os_with u a t p h e =
     \<lparr> uname = (\<lambda>_. u), analog_config_result = a, temp_config_result = t,
       pwm_config_result = p, heater_config_result = h,
       eeprom_get_step_io_config_result = e \<rparr>"

definition os_3_8 :: env where
  "os_3_8 = os_answering (\<lambda>t. Some ''3.8.13-bone28'')"

definition os_3_2 :: env where
  "os_3_2 = os_answering (\<lambda>t. Some ''3.2.42-psp27'')"

text \<open>
  The two enable lines of the stock board with the I/O power off: IO_PWR_ON (gpio38) low,
  !IO_PWR_ON (gpio34) high.
\<close>

definition powered_down_stock :: "int \<Rightarrow> string option" where
  "powered_down_stock = [38 \<mapsto> ''0'', 34 \<mapsto> ''1'']"

section \<open>Properties\<close>

subsection \<open>Auxiliary facts\<close>

lemma of_char_diff_zero: "(of_char x - of_char y = (0::int)) \<longleftrightarrow> x = y"
  by (simp add: of_char_eq_iff)

lemma of_char_zero: "(of_char y = (0::int)) \<longleftrightarrow> y = CHR 0x00"
proof -
  have "(of_char y = (of_char (CHR 0x00) :: int)) \<longleftrightarrow> y = CHR 0x00"
    by (rule of_char_eq_iff)
  then show ?thesis by simp
qed

text \<open>Comparing against a NUL-free string of exactly \<open>n\<close> characters is a prefix test.\<close>

lemma strncmp_zero_iff_prefix:
  "length b = n \<Longrightarrow> CHR 0x00 \<notin> set b \<Longrightarrow> strncmp a b n = 0 \<longleftrightarrow> prefix b a"
proof (induction a b n rule: strncmp.induct)
  case (1 a b)
  then show ?case by simp
next
  case (2 n)
  then show ?case by simp
next
  case (3 y b n)
  then show ?case by (auto simp: of_char_zero)
next
  case (4 x a n)
  then show ?case by simp
next
  case (5 x a y b n)
  then show ?case by (auto simp: of_char_diff_zero)
qed

lemma strncmp_3_2: "strncmp r ''3.2'' 3 = 0 \<longleftrightarrow> prefix ''3.2'' r"
  by (rule strncmp_zero_iff_prefix) simp_all

lemma strncmp_3_8: "strncmp r ''3.8'' 3 = 0 \<longleftrightarrow> prefix ''3.8'' r"
  by (rule strncmp_zero_iff_prefix) simp_all

lemma get_kernel_type_known:
  "current_kernel s \<noteq> e_kernel_unknown \<Longrightarrow> get_kernel_type os s = (current_kernel s, s)"
  by (simp add: get_kernel_type_def)

lemma get_kernel_type_result:
  "fst (get_kernel_type os s) = current_kernel (snd (get_kernel_type os s))"
  by (simp add: get_kernel_type_def Let_def split: option.splits)

lemma get_kernel_type_unknown:
  "fst (get_kernel_type os s) = e_kernel_unknown \<Longrightarrow>
   get_kernel_type os s = (e_kernel_unknown, s\<lparr>trace := trace s @ [Uname]\<rparr>)"
  by (auto simp: get_kernel_type_def emit_def Let_def split: option.splits if_splits)

lemma get_kernel_type_registration_calls:
  "registration_calls (trace (snd (get_kernel_type os s))) = registration_calls (trace s)"
  by (simp add: get_kernel_type_def emit_def Let_def registration_calls_def split: option.splits)

lemma get_kernel_type_use_pololu_drivers:
  "use_pololu_drivers (snd (get_kernel_type os s)) = use_pololu_drivers s"
  by (simp add: get_kernel_type_def emit_def Let_def split: option.splits)

text \<open>What \<open>bebopr_pre_init\<close> is once the kernel generation is resolved and known.\<close>

lemma pre_init_known:
  assumes "get_kernel_type os s = (k, s1)" and "k \<noteq> e_kernel_unknown"
  shows "bebopr_pre_init b os s =
           (if BONE_BRIDGE b \<and> k = e_kernel_3_2 then
              (- 1, fprintf_stderr msg_bridge
                      (fprintf_stderr (msg_configured b k (kernel_release s1)) s1))
            else pre_init_tables b os
                   (fprintf_stderr (msg_configured b k (kernel_release s1)) s1))"
proof -
  have k: "current_kernel s1 = k"
    using assms(1) get_kernel_type_result [of os s] by simp
  have g1: "get_kernel_type os s1 = (k, s1)"
    using k assms(2) by (simp add: get_kernel_type_known)
  have g2: "get_kernel_type os (fprintf_stderr m s1) = (k, fprintf_stderr m s1)" for m
    using k assms(2) by (simp add: get_kernel_type_known fprintf_stderr_def emit_def)
  show ?thesis
    using assms by (simp add: bebopr_pre_init_def g1 g2 Let_def)
qed

text \<open>The outcomes of the table registrations and of the EEPROM read, branch by branch.\<close>

lemma pre_init_tables_outcome:
  "pre_init_tables b os s =
     (if analog_config_result os < 0 then
        (analog_config_result os,
         s\<lparr>trace := trace s @ [analog_call b, Stderr (''analog_config failed!'' @ [CHR 0x0A])]\<rparr>)
      else if temp_config_result os < 0 then
        (temp_config_result os,
         s\<lparr>trace := trace s
                @ [analog_call b, temp_call b, Stderr (''temp_config failed!'' @ [CHR 0x0A])]\<rparr>)
      else if pwm_config_result os < 0 then
        (pwm_config_result os,
         s\<lparr>trace := trace s
                @ [analog_call b, temp_call b, pwm_call b,
                   Stderr (''pwm_config failed!'' @ [CHR 0x0A])]\<rparr>)
      else if heater_config_result os < 0 then
        (heater_config_result os,
         s\<lparr>trace := trace s
                @ [analog_call b, temp_call b, pwm_call b, heater_call b,
                   Stderr (''heater_config failed!'' @ [CHR 0x0A])]\<rparr>)
      else
        (0,
         s\<lparr>use_pololu_drivers :=
              (if eeprom_get_step_io_config_result os = TB6560_DRIVERS b then 0
               else use_pololu_drivers s),
            trace := trace s
                @ [analog_call b, temp_call b, pwm_call b, heater_call b,
                   Eeprom_get_step_io_config (EEPROM_PATH b),
                   Stderr (msg_stepper
                     (if eeprom_get_step_io_config_result os = TB6560_DRIVERS b then 0
                      else use_pololu_drivers s))]\<rparr>))"
  by (simp add: pre_init_tables_def analog_config_def temp_config_def pwm_config_def
      heater_config_def eeprom_get_step_io_config_def fprintf_stderr_def emit_def
      analog_call_def temp_call_def pwm_call_def heater_call_def Let_def)

lemma get_kernel_type_os_with_3_8:
  "get_kernel_type (os_with (Some ''3.8.13-bone28'') a t p h e) initial_state =
     (e_kernel_3_8,
      initial_state\<lparr>current_kernel := e_kernel_3_8, kernel_release := ''3.8.13-bone28'',
                     trace := [Uname]\<rparr>)"
  by (simp add: get_kernel_type_def os_with_def initial_state_def emit_def Let_def
      numeral_3_eq_3)

subsection \<open>Kernel variant detection\<close>

text \<open>
  Claim C4. When no kernel generation is cached yet, \<open>get_kernel_type\<close> queries the
  operating system and classifies the answer: a release string with prefix "3.2" gives
  \<open>e_kernel_3_2\<close>, one with prefix "3.8" gives \<open>e_kernel_3_8\<close>, any other release string
  gives \<open>e_kernel_other\<close>, and a failed query gives \<open>e_kernel_unknown\<close>. The function
  has no error result: a failed query is the ordinary return value \<open>e_kernel_unknown\<close>.
\<close>

theorem get_kernel_type_classifies:
  "current_kernel s = e_kernel_unknown \<Longrightarrow>
   fst (get_kernel_type os s) =
     (case uname os (trace s) of
        None \<Rightarrow> e_kernel_unknown
      | Some release \<Rightarrow>
          if prefix ''3.2'' release then e_kernel_3_2
          else if prefix ''3.8'' release then e_kernel_3_8
          else e_kernel_other)"
  by (simp add: get_kernel_type_def emit_def Let_def strncmp_3_2 strncmp_3_8 split: option.splits)

theorem get_kernel_type_classifies_witness:
  "current_kernel initial_state = e_kernel_unknown
   \<and> fst (get_kernel_type (os_answering (\<lambda>t. Some ''3.2.42-psp27'')) initial_state) = e_kernel_3_2
   \<and> fst (get_kernel_type (os_answering (\<lambda>t. Some ''3.8.13-bone28'')) initial_state) = e_kernel_3_8
   \<and> fst (get_kernel_type (os_answering (\<lambda>t. Some ''4.19.94-ti-r42'')) initial_state) = e_kernel_other
   \<and> fst (get_kernel_type (os_answering (\<lambda>t. None)) initial_state) = e_kernel_unknown"
proof -
  have h: "current_kernel initial_state = e_kernel_unknown"
    by (simp add: initial_state_def)
  show ?thesis
    using h
      get_kernel_type_classifies [OF h, of "os_answering (\<lambda>t. Some ''3.2.42-psp27'')"]
      get_kernel_type_classifies [OF h, of "os_answering (\<lambda>t. Some ''3.8.13-bone28'')"]
      get_kernel_type_classifies [OF h, of "os_answering (\<lambda>t. Some ''4.19.94-ti-r42'')"]
      get_kernel_type_classifies [OF h, of "os_answering (\<lambda>t. None)"]
    by (simp add: os_answering_def)
qed

text \<open>
  Claim C2, as stated: after the first call the result is cached for all four outcomes of
  the first query, failure included, and the operating system is not asked again. It fails
  when the first query fails: \<open>e_kernel_unknown\<close> is also the marker for "nothing cached",
  so the second call asks again and, here, returns \<open>e_kernel_3_8\<close>.
\<close>

theorem get_kernel_type_failure_not_cached:
  "fst (get_kernel_type os_failing_once initial_state) = e_kernel_unknown
   \<and> fst (get_kernel_type os_failing_once (snd (get_kernel_type os_failing_once initial_state)))
       = e_kernel_3_8
   \<and> trace (snd (get_kernel_type os_failing_once
                    (snd (get_kernel_type os_failing_once initial_state)))) = [Uname, Uname]"
  by (simp add: get_kernel_type_def os_failing_once_def os_answering_def initial_state_def
      emit_def Let_def numeral_3_eq_3)

text \<open>
  Claim C2, amended. A call of \<open>get_kernel_type\<close> with nothing cached queries the
  operating system once. If the query succeeds, the call returns a generation other than
  \<open>e_kernel_unknown\<close> and stores the first 49 characters of the release string (the
  whole string when it is shorter) in \<open>kernel_release\<close>; if it fails, the call returns
  \<open>e_kernel_unknown\<close> and leaves \<open>kernel_release\<close> as it was. A call with a generation
  cached returns it and changes nothing. So once a call has returned a generation other
  than \<open>e_kernel_unknown\<close>, the next call returns the same generation whatever the
  operating system would answer, and leaves the whole state as it is: no further \<open>uname\<close>
  in the trace, the stored release string unchanged. (The state being unchanged, the same
  holds for every later call.) After a call that returned \<open>e_kernel_unknown\<close> nothing is
  cached: the next call queries the operating system again.
\<close>

theorem get_kernel_type_cached:
  assumes "get_kernel_type os s = (k, s')"
  shows "(current_kernel s = e_kernel_unknown \<longrightarrow>
            trace s' = trace s @ [Uname]
            \<and> (case uname os (trace s) of
                 Some release \<Rightarrow> k \<noteq> e_kernel_unknown \<and> kernel_release s' = take 49 release
               | None \<Rightarrow> k = e_kernel_unknown \<and> kernel_release s' = kernel_release s))
       \<and> (current_kernel s \<noteq> e_kernel_unknown \<longrightarrow> k = current_kernel s \<and> s' = s)
       \<and> (k \<noteq> e_kernel_unknown \<longrightarrow> get_kernel_type os' s' = (k, s'))
       \<and> (k = e_kernel_unknown \<longrightarrow>
            trace (snd (get_kernel_type os' s')) = trace s' @ [Uname])"
proof -
  have k: "k = current_kernel s'"
    using assms get_kernel_type_result [of os s] by simp
  have q: "current_kernel s = e_kernel_unknown \<longrightarrow>
            trace s' = trace s @ [Uname]
            \<and> (case uname os (trace s) of
                 Some release \<Rightarrow> k \<noteq> e_kernel_unknown \<and> kernel_release s' = take 49 release
               | None \<Rightarrow> k = e_kernel_unknown \<and> kernel_release s' = kernel_release s)"
    using assms
    by (auto simp: get_kernel_type_def emit_def Let_def split: option.splits if_splits)
  have c: "current_kernel s \<noteq> e_kernel_unknown \<longrightarrow> k = current_kernel s \<and> s' = s"
    using assms by (auto simp: get_kernel_type_known)
  have n: "k \<noteq> e_kernel_unknown \<longrightarrow> get_kernel_type os' s' = (k, s')"
    using k by (simp add: get_kernel_type_known)
  have u: "k = e_kernel_unknown \<longrightarrow>
            trace (snd (get_kernel_type os' s')) = trace s' @ [Uname]"
    using k by (simp add: get_kernel_type_def emit_def Let_def split: option.splits)
  from q c n u show ?thesis by blast
qed

theorem get_kernel_type_cached_witness:
  "get_kernel_type (os_answering (\<lambda>t. Some ''3.2.42'')) initial_state
     = (e_kernel_3_2,
        initial_state\<lparr>current_kernel := e_kernel_3_2, kernel_release := ''3.2.42'',
                       trace := [Uname]\<rparr>)
   \<and> get_kernel_type (os_answering (\<lambda>t. Some ''3.8.13''))
        (initial_state\<lparr>current_kernel := e_kernel_3_2, kernel_release := ''3.2.42'',
                        trace := [Uname]\<rparr>)
     = (e_kernel_3_2,
        initial_state\<lparr>current_kernel := e_kernel_3_2, kernel_release := ''3.2.42'',
                       trace := [Uname]\<rparr>)
   \<and> current_kernel initial_state = e_kernel_unknown
   \<and> kernel_release (snd (get_kernel_type os_long initial_state))
     = ''3.8.13-bone28-a-very-long-local-version-suffix-01''
   \<and> get_kernel_type (os_answering (\<lambda>t. None)) initial_state
     = (e_kernel_unknown, initial_state\<lparr>trace := [Uname]\<rparr>)
   \<and> trace (snd (get_kernel_type (os_answering (\<lambda>t. Some ''3.8.13''))
                    (initial_state\<lparr>trace := [Uname]\<rparr>))) = [Uname, Uname]"
proof -
  have a: "get_kernel_type (os_answering (\<lambda>t. Some ''3.2.42'')) initial_state
     = (e_kernel_3_2,
        initial_state\<lparr>current_kernel := e_kernel_3_2, kernel_release := ''3.2.42'',
                       trace := [Uname]\<rparr>)"
    by (simp add: get_kernel_type_def os_answering_def initial_state_def emit_def Let_def
        numeral_3_eq_3)
  have b: "get_kernel_type (os_answering (\<lambda>t. None)) initial_state
     = (e_kernel_unknown, initial_state\<lparr>trace := [Uname]\<rparr>)"
    by (simp add: get_kernel_type_def os_answering_def initial_state_def emit_def Let_def)
  have c: "get_kernel_type os_long initial_state
           = (fst (get_kernel_type os_long initial_state),
              snd (get_kernel_type os_long initial_state))"
    by simp
  have u: "current_kernel initial_state = e_kernel_unknown"
    by (simp add: initial_state_def)
  have a': "get_kernel_type (os_answering (\<lambda>t. Some ''3.8.13''))
        (initial_state\<lparr>current_kernel := e_kernel_3_2, kernel_release := ''3.2.42'',
                        trace := [Uname]\<rparr>)
     = (e_kernel_3_2,
        initial_state\<lparr>current_kernel := e_kernel_3_2, kernel_release := ''3.2.42'',
                       trace := [Uname]\<rparr>)"
    using get_kernel_type_cached [OF a, of "os_answering (\<lambda>t. Some ''3.8.13'')"] by simp
  have b': "trace (snd (get_kernel_type (os_answering (\<lambda>t. Some ''3.8.13''))
                    (initial_state\<lparr>trace := [Uname]\<rparr>))) = [Uname, Uname]"
    using get_kernel_type_cached [OF b, of "os_answering (\<lambda>t. Some ''3.8.13'')"] by simp
  have c': "kernel_release (snd (get_kernel_type os_long initial_state))
     = ''3.8.13-bone28-a-very-long-local-version-suffix-01''"
    using u get_kernel_type_cached [OF c, of "os_answering (\<lambda>t. None)"]
    by (simp add: os_long_def os_answering_def)
  from a a' u c' b b' show ?thesis by blast
qed

subsection \<open>Early initialisation\<close>

text \<open>
  Claim C5. Whenever the kernel generation resolves to \<open>e_kernel_unknown\<close>,
  \<open>bebopr_pre_init\<close> returns the failure result -1 after the "not compatible"
  diagnostic, and none of the four table registrations is called: the only things that
  happen are the \<open>uname\<close> query and that diagnostic.
\<close>

theorem pre_init_unknown_kernel:
  "fst (get_kernel_type os s) = e_kernel_unknown \<Longrightarrow>
   fst (bebopr_pre_init b os s) = - 1
   \<and> trace (snd (bebopr_pre_init b os s))
       = trace s @ [Uname, Stderr (msg_not_compatible b (kernel_release s))]
   \<and> registration_calls (trace (snd (bebopr_pre_init b os s))) = registration_calls (trace s)"
  by (simp add: bebopr_pre_init_def get_kernel_type_unknown fprintf_stderr_def emit_def
      registration_calls_def)

theorem pre_init_unknown_kernel_witness:
  "fst (get_kernel_type (os_answering (\<lambda>t. None)) initial_state) = e_kernel_unknown
   \<and> fst (bebopr_pre_init stock_build (os_answering (\<lambda>t. None)) initial_state) = - 1
   \<and> registration_calls
       (trace (snd (bebopr_pre_init stock_build (os_answering (\<lambda>t. None)) initial_state))) = []"
proof -
  have h: "fst (get_kernel_type (os_answering (\<lambda>t. None)) initial_state) = e_kernel_unknown"
    by (simp add: get_kernel_type_def os_answering_def initial_state_def emit_def Let_def)
  show ?thesis
    using h pre_init_unknown_kernel [OF h, of stock_build]
    by (simp add: initial_state_def registration_calls_def)
qed

text \<open>
  Claim C6. In a build with \<open>BONE_BRIDGE\<close>, when the kernel generation resolves to
  \<open>e_kernel_3_2\<close>, \<open>bebopr_pre_init\<close> returns the failure result -1, the last thing it
  does is the "Bridge is only supported with a device-tree kernel" diagnostic, and no table
  registration is called.
\<close>

theorem pre_init_bridge_on_3_2:
  assumes "BONE_BRIDGE b" and "fst (get_kernel_type os s) = e_kernel_3_2"
  shows "fst (bebopr_pre_init b os s) = - 1
       \<and> last (trace (snd (bebopr_pre_init b os s))) = Stderr msg_bridge
       \<and> registration_calls (trace (snd (bebopr_pre_init b os s))) = registration_calls (trace s)"
proof -
  obtain s1 where g: "get_kernel_type os s = (e_kernel_3_2, s1)"
    using assms(2) by (cases "get_kernel_type os s") simp
  have r: "registration_calls (trace s1) = registration_calls (trace s)"
    using g get_kernel_type_registration_calls [of os s] by simp
  show ?thesis
    using assms(1) r
    by (simp add: pre_init_known [OF g] fprintf_stderr_def emit_def registration_calls_def)
qed

theorem pre_init_bridge_on_3_2_witness:
  "BONE_BRIDGE bridge_build
   \<and> fst (get_kernel_type (os_answering (\<lambda>t. Some ''3.2.42-psp27'')) initial_state)
       = e_kernel_3_2
   \<and> fst (bebopr_pre_init bridge_build (os_answering (\<lambda>t. Some ''3.2.42-psp27''))
            initial_state) = - 1
   \<and> registration_calls
       (trace (snd (bebopr_pre_init bridge_build (os_answering (\<lambda>t. Some ''3.2.42-psp27''))
                      initial_state))) = []"
proof -
  have b: "BONE_BRIDGE bridge_build"
    by (simp add: bridge_build_def)
  have h: "fst (get_kernel_type (os_answering (\<lambda>t. Some ''3.2.42-psp27'')) initial_state)
             = e_kernel_3_2"
    by (simp add: get_kernel_type_def os_answering_def initial_state_def emit_def Let_def
        numeral_3_eq_3)
  show ?thesis
    using b h pre_init_bridge_on_3_2 [OF b h]
    by (simp add: initial_state_def registration_calls_def)
qed

text \<open>
  Claim C7. When the kernel generation is known and allowed for the build,
  \<open>bebopr_pre_init\<close> calls \<open>analog_config\<close>, \<open>temp_config\<close>, \<open>pwm_config\<close> and
  \<open>heater_config\<close> in this order, each with its table and the table's length. The first
  one that returns a negative result ends the sequence: \<open>bebopr_pre_init\<close> returns that
  negative result, writes the diagnostic naming that stage, and calls none of the later
  subsystems. If none rejects, all four are called in that order and the result is 0.
\<close>

theorem pre_init_registration_order:
  assumes "get_kernel_type os s = (k, s1)"
    and "k \<noteq> e_kernel_unknown"
    and "\<not> (BONE_BRIDGE b \<and> k = e_kernel_3_2)"
  shows
    "let t0 = trace s1 @ [Stderr (msg_configured b k (kernel_release s1))];
         r = fst (bebopr_pre_init b os s);
         t = trace (snd (bebopr_pre_init b os s))
     in (analog_config_result os < 0 \<longrightarrow>
           r = analog_config_result os
           \<and> t = t0 @ [analog_call b, Stderr (''analog_config failed!'' @ [CHR 0x0A])])
      \<and> (0 \<le> analog_config_result os \<and> temp_config_result os < 0 \<longrightarrow>
           r = temp_config_result os
           \<and> t = t0 @ [analog_call b, temp_call b,
                       Stderr (''temp_config failed!'' @ [CHR 0x0A])])
      \<and> (0 \<le> analog_config_result os \<and> 0 \<le> temp_config_result os
           \<and> pwm_config_result os < 0 \<longrightarrow>
           r = pwm_config_result os
           \<and> t = t0 @ [analog_call b, temp_call b, pwm_call b,
                       Stderr (''pwm_config failed!'' @ [CHR 0x0A])])
      \<and> (0 \<le> analog_config_result os \<and> 0 \<le> temp_config_result os
           \<and> 0 \<le> pwm_config_result os \<and> heater_config_result os < 0 \<longrightarrow>
           r = heater_config_result os
           \<and> t = t0 @ [analog_call b, temp_call b, pwm_call b, heater_call b,
                       Stderr (''heater_config failed!'' @ [CHR 0x0A])])
      \<and> (0 \<le> analog_config_result os \<and> 0 \<le> temp_config_result os
           \<and> 0 \<le> pwm_config_result os \<and> 0 \<le> heater_config_result os \<longrightarrow>
           r = 0
           \<and> registration_calls t
               = registration_calls t0 @ [analog_call b, temp_call b, pwm_call b, heater_call b])"
proof -
  have "bebopr_pre_init b os s =
          pre_init_tables b os (fprintf_stderr (msg_configured b k (kernel_release s1)) s1)"
    using assms(3) by (auto simp: pre_init_known [OF assms(1,2)])
  then show ?thesis
    by (simp add: pre_init_tables_outcome fprintf_stderr_def emit_def Let_def
        registration_calls_def analog_call_def temp_call_def pwm_call_def heater_call_def)
qed

theorem pre_init_registration_order_witness:
  "fst (bebopr_pre_init stock_build (os_with (Some ''3.8.13-bone28'') (- 1) 0 0 0 0)
          initial_state) = - 1
   \<and> registration_calls
       (trace (snd (bebopr_pre_init stock_build
                      (os_with (Some ''3.8.13-bone28'') (- 1) 0 0 0 0) initial_state)))
       = [analog_call stock_build]
   \<and> fst (bebopr_pre_init stock_build (os_with (Some ''3.8.13-bone28'') 0 (- 2) 0 0 0)
          initial_state) = - 2
   \<and> registration_calls
       (trace (snd (bebopr_pre_init stock_build
                      (os_with (Some ''3.8.13-bone28'') 0 (- 2) 0 0 0) initial_state)))
       = [analog_call stock_build, temp_call stock_build]
   \<and> fst (bebopr_pre_init stock_build (os_with (Some ''3.8.13-bone28'') 0 0 (- 3) 0 0)
          initial_state) = - 3
   \<and> registration_calls
       (trace (snd (bebopr_pre_init stock_build
                      (os_with (Some ''3.8.13-bone28'') 0 0 (- 3) 0 0) initial_state)))
       = [analog_call stock_build, temp_call stock_build, pwm_call stock_build]
   \<and> fst (bebopr_pre_init stock_build (os_with (Some ''3.8.13-bone28'') 0 0 0 (- 4) 0)
          initial_state) = - 4
   \<and> registration_calls
       (trace (snd (bebopr_pre_init stock_build
                      (os_with (Some ''3.8.13-bone28'') 0 0 0 (- 4) 0) initial_state)))
       = [analog_call stock_build, temp_call stock_build, pwm_call stock_build,
          heater_call stock_build]
   \<and> fst (bebopr_pre_init stock_build (os_with (Some ''3.8.13-bone28'') 0 0 0 0 0)
          initial_state) = 0
   \<and> registration_calls
       (trace (snd (bebopr_pre_init stock_build
                      (os_with (Some ''3.8.13-bone28'') 0 0 0 0 0) initial_state)))
       = [analog_call stock_build, temp_call stock_build, pwm_call stock_build,
          heater_call stock_build]"
proof -
  have k: "e_kernel_3_8 \<noteq> e_kernel_unknown"
    by simp
  have nb: "\<not> (BONE_BRIDGE stock_build \<and> e_kernel_3_8 = e_kernel_3_2)"
    by simp
  note run = pre_init_registration_order [OF get_kernel_type_os_with_3_8 k nb]
  have reg: "is_registration (analog_call stock_build)" "is_registration (temp_call stock_build)"
    "is_registration (pwm_call stock_build)" "is_registration (heater_call stock_build)"
    by (simp_all add: analog_call_def temp_call_def pwm_call_def heater_call_def)
  show ?thesis
    using run [of "- 1" 0 0 0 0] run [of 0 "- 2" 0 0 0] run [of 0 0 "- 3" 0 0]
      run [of 0 0 0 "- 4" 0] run [of 0 0 0 0 0] reg
    by (simp add: os_with_def Let_def registration_calls_def)
qed

text \<open>
  Claim C8. Starting with the Pololu personality selected (the initial value of
  \<open>use_pololu_drivers\<close>), with a known kernel generation allowed for the build and the
  four tables accepted: whatever \<open>eeprom_get_step_io_config\<close> returns,
  \<open>bebopr_pre_init\<close> succeeds (returns 0), and afterwards \<open>config_use_pololu_drivers\<close>
  returns 0 (TB6560) exactly when the value read is \<open>TB6560_DRIVERS\<close>, and 1 (Pololu) for
  every other value, a failure code included.
\<close>

theorem pre_init_stepper_personality:
  assumes "use_pololu_drivers s = 1"
    and "fst (get_kernel_type os s) \<noteq> e_kernel_unknown"
    and "\<not> (BONE_BRIDGE b \<and> fst (get_kernel_type os s) = e_kernel_3_2)"
    and "0 \<le> analog_config_result os" and "0 \<le> temp_config_result os"
    and "0 \<le> pwm_config_result os" and "0 \<le> heater_config_result os"
  shows "fst (bebopr_pre_init b os s) = 0
       \<and> config_use_pololu_drivers (snd (bebopr_pre_init b os s))
           = (if eeprom_get_step_io_config_result os = TB6560_DRIVERS b then 0 else 1)"
proof -
  obtain k s1 where g: "get_kernel_type os s = (k, s1)"
    by (cases "get_kernel_type os s")
  have k: "k \<noteq> e_kernel_unknown" "\<not> (BONE_BRIDGE b \<and> k = e_kernel_3_2)"
    using g assms(2,3) by simp_all
  have u: "use_pololu_drivers s1 = 1"
    using g assms(1) get_kernel_type_use_pololu_drivers [of os s] by simp
  have "bebopr_pre_init b os s =
          pre_init_tables b os (fprintf_stderr (msg_configured b k (kernel_release s1)) s1)"
    using k(2) by (auto simp: pre_init_known [OF g k(1)])
  then show ?thesis
    using u assms(4-7)
    by (simp add: pre_init_tables_outcome fprintf_stderr_def emit_def
        config_use_pololu_drivers_def)
qed

theorem pre_init_stepper_personality_witness:
  "use_pololu_drivers initial_state = 1
   \<and> TB6560_DRIVERS stock_build = 1
   \<and> fst (bebopr_pre_init stock_build (os_with (Some ''3.8.13-bone28'') 0 0 0 0 1)
            initial_state) = 0
   \<and> config_use_pololu_drivers
       (snd (bebopr_pre_init stock_build (os_with (Some ''3.8.13-bone28'') 0 0 0 0 1)
               initial_state)) = 0
   \<and> fst (bebopr_pre_init stock_build (os_with (Some ''3.8.13-bone28'') 0 0 0 0 (- 1))
            initial_state) = 0
   \<and> config_use_pololu_drivers
       (snd (bebopr_pre_init stock_build (os_with (Some ''3.8.13-bone28'') 0 0 0 0 (- 1))
               initial_state)) = 1
   \<and> fst (bebopr_pre_init stock_build (os_with (Some ''3.8.13-bone28'') 0 0 0 0 7)
            initial_state) = 0
   \<and> config_use_pololu_drivers
       (snd (bebopr_pre_init stock_build (os_with (Some ''3.8.13-bone28'') 0 0 0 0 7)
               initial_state)) = 1"
proof -
  have u: "use_pololu_drivers initial_state = 1"
    by (simp add: initial_state_def)
  have k: "fst (get_kernel_type (os_with (Some ''3.8.13-bone28'') 0 0 0 0 e) initial_state)
             \<noteq> e_kernel_unknown" for e
    by (simp add: get_kernel_type_os_with_3_8)
  have nb: "\<not> (BONE_BRIDGE stock_build
               \<and> fst (get_kernel_type (os_with (Some ''3.8.13-bone28'') 0 0 0 0 e)
                        initial_state) = e_kernel_3_2)" for e
    by (simp add: get_kernel_type_os_with_3_8)
  have ok: "0 \<le> analog_config_result (os_with (Some ''3.8.13-bone28'') 0 0 0 0 e)"
    "0 \<le> temp_config_result (os_with (Some ''3.8.13-bone28'') 0 0 0 0 e)"
    "0 \<le> pwm_config_result (os_with (Some ''3.8.13-bone28'') 0 0 0 0 e)"
    "0 \<le> heater_config_result (os_with (Some ''3.8.13-bone28'') 0 0 0 0 e)" for e
    by (simp_all add: os_with_def)
  note run = pre_init_stepper_personality [OF u k nb ok]
  show ?thesis
    using u run [of 1] run [of "- 1"] run [of 7]
    by (simp add: os_with_def stock_build_def)
qed

subsection \<open>Axis constants\<close>

text \<open>
  Claim C3, as stated: every per-axis accessor returns a defined value for each of X, Y,
  Z and E. It fails for the accessors that report whether a position is defined: for the
  E axis the soft limits and the min switch position are "not defined" (result 0, output
  parameter untouched), and the max switch position is "not defined" for every axis.
\<close>

theorem soft_limit_undefined_for_e_axis:
  "config_min_soft_limit e_axis 7 = (0, 7)
   \<and> config_max_soft_limit e_axis 7 = (0, 7)
   \<and> config_min_switch_pos initial_state e_axis 7 = (0, 7)
   \<and> config_max_switch_pos initial_state x_axis 7 = (0, 7)
   \<and> config_max_switch_pos initial_state y_axis 7 = (0, 7)
   \<and> config_max_switch_pos initial_state z_axis 7 = (0, 7)
   \<and> config_max_switch_pos initial_state e_axis 7 = (0, 7)"
  by (simp add: config_min_soft_limit_def config_max_soft_limit_def config_min_switch_pos_def
      config_max_switch_pos_def)

text \<open>
  Claim C3, amended. Every per-axis accessor is total, with these values. Step size, max
  feed and max acceleration return the configured constant for X, Y, Z and E. Direction
  reversal and the limit-switch presence and polarity accessors return the configured flag
  0 or 1 for X, Y, Z and E. The min and max soft limits and the min switch position are
  defined for X, Y and Z only (the min switch position being the stored calibration
  position) and "not defined" for E; the max switch position is "not defined" for every
  axis. Home-release feed and home-max feed return the configured constant for X, Y and Z,
  and 0.0 for E. For any axis outside X, Y, Z, E every accessor returns its neutral value:
  0, 0.0, or "not defined" with the output parameter untouched.
\<close>

theorem axis_accessors_table:
  "map config_get_step_size [x_axis, y_axis, z_axis, e_axis, other_axis n]
     = [15 / 1000000, 125 / 10000000, 1953125 / 10000000000000, 3345 / 1000000000, 0]
   \<and> map config_get_max_feed [x_axis, y_axis, z_axis, e_axis, other_axis n]
     = [22500, 16000, 300, 3000, 0]
   \<and> map config_get_max_accel [x_axis, y_axis, z_axis, e_axis, other_axis n]
     = [3, 1, 1, 1, 0]
   \<and> map config_reverse_axis [x_axis, y_axis, z_axis, e_axis, other_axis n]
     = [1, 0, 0, 1, 0]
   \<and> map config_axis_has_min_limit_switch [x_axis, y_axis, z_axis, e_axis, other_axis n]
     = [1, 1, 1, 0, 0]
   \<and> map config_axis_has_max_limit_switch [x_axis, y_axis, z_axis, e_axis, other_axis n]
     = [0, 0, 1, 0, 0]
   \<and> map config_min_limit_switch_is_active_low [x_axis, y_axis, z_axis, e_axis, other_axis n]
     = [1, 1, 0, 0, 0]
   \<and> map config_max_limit_switch_is_active_low [x_axis, y_axis, z_axis, e_axis, other_axis n]
     = [0, 0, 1, 0, 0]
   \<and> map (\<lambda>axis. config_min_soft_limit axis p) [x_axis, y_axis, z_axis, e_axis, other_axis n]
     = [(1, 0), (1, 0), (1, 0), (0, p), (0, p)]
   \<and> map (\<lambda>axis. config_max_soft_limit axis p) [x_axis, y_axis, z_axis, e_axis, other_axis n]
     = [(1, 215), (1, 200), (1, 60), (0, p), (0, p)]
   \<and> map (\<lambda>axis. config_min_switch_pos s axis p) [x_axis, y_axis, z_axis, e_axis, other_axis n]
     = [(1, x_cal_pos s), (1, y_cal_pos s), (1, z_cal_pos s), (0, p), (0, p)]
   \<and> map (\<lambda>axis. config_max_switch_pos s axis p) [x_axis, y_axis, z_axis, e_axis, other_axis n]
     = [(0, p), (0, p), (0, p), (0, p), (0, p)]
   \<and> map config_get_home_release_feed [x_axis, y_axis, z_axis, e_axis, other_axis n]
     = [150, 150, 150, 0, 0]
   \<and> map config_get_home_max_feed [x_axis, y_axis, z_axis, e_axis, other_axis n]
     = [3000, 3000, 450, 0, 0]"
  by (simp add: config_get_step_size_def config_get_max_feed_def config_get_max_accel_def
      config_reverse_axis_def config_axis_has_min_limit_switch_def
      config_axis_has_max_limit_switch_def config_min_limit_switch_is_active_low_def
      config_max_limit_switch_is_active_low_def config_min_soft_limit_def
      config_max_soft_limit_def config_min_switch_pos_def config_max_switch_pos_def
      config_get_home_release_feed_def config_get_home_max_feed_def)

subsection \<open>Calibration positions\<close>

text \<open>
  Claim C9. For an axis among X, Y, Z and every value \<open>v\<close>, \<open>config_set_cal_pos\<close> returns
  1 (true), \<open>config_min_switch_pos\<close> then returns 1 and stores \<open>v\<close> through its output
  parameter, and after a second write of \<open>w\<close> it gives \<open>w\<close>. For every other axis
  \<open>config_set_cal_pos\<close> returns 0 (false) and changes nothing in the state.
\<close>

theorem config_set_cal_pos_last_write_wins:
  "(axis \<in> {x_axis, y_axis, z_axis} \<longrightarrow>
      fst (config_set_cal_pos axis v s) = 1
      \<and> config_min_switch_pos (snd (config_set_cal_pos axis v s)) axis p = (1, v)
      \<and> config_min_switch_pos
          (snd (config_set_cal_pos axis w (snd (config_set_cal_pos axis v s)))) axis p = (1, w))
   \<and> (axis \<notin> {x_axis, y_axis, z_axis} \<longrightarrow> config_set_cal_pos axis v s = (0, s))"
  by (cases axis) (simp_all add: config_set_cal_pos_def config_min_switch_pos_def)

theorem config_set_cal_pos_last_write_wins_witness:
  "z_axis \<in> {x_axis, y_axis, z_axis}
   \<and> fst (config_set_cal_pos z_axis (5 / 1000) initial_state) = 1
   \<and> config_min_switch_pos (snd (config_set_cal_pos z_axis (5 / 1000) initial_state)) z_axis 0
       = (1, 5 / 1000)
   \<and> config_min_switch_pos
       (snd (config_set_cal_pos z_axis (7 / 1000)
              (snd (config_set_cal_pos z_axis (5 / 1000) initial_state)))) z_axis 0
       = (1, 7 / 1000)
   \<and> e_axis \<notin> {x_axis, y_axis, z_axis}
   \<and> config_set_cal_pos e_axis (5 / 1000) initial_state = (0, initial_state)"
  using config_set_cal_pos_last_write_wins [of z_axis "5 / 1000" initial_state 0 "7 / 1000"]
    config_set_cal_pos_last_write_wins [of e_axis "5 / 1000" initial_state 0 "7 / 1000"]
  by simp

text \<open>
  Claim C10. Before any call of \<open>config_set_cal_pos\<close>, \<open>config_min_switch_pos\<close> returns
  1 with position 0.0 for X and for Y, and 1 with position -2.7955E-3 for Z, which differs
  from the position of X and Y.
\<close>

theorem initial_calibration_positions:
  "config_min_switch_pos initial_state x_axis p = (1, 0)
   \<and> config_min_switch_pos initial_state y_axis p = (1, 0)
   \<and> config_min_switch_pos initial_state z_axis p = (1, - (27955 / 10000000))
   \<and> snd (config_min_switch_pos initial_state z_axis p)
       \<noteq> snd (config_min_switch_pos initial_state x_axis p)"
  by (simp add: config_min_switch_pos_def initial_state_def)

subsection \<open>I/O power\<close>

text \<open>
  Claim C1 says that \<open>bebopr_exit\<close> after \<open>bebopr_post_init\<close> returns every line to the
  level it had before power-on. On the stock build (no Bridge, no Enable-Patch), here on a
  3.8 kernel, \<open>bebopr_exit\<close> writes to gpio38 and gpio34 the very levels that
  \<open>bebopr_post_init\<close> wrote: starting with the power off (gpio38 low, gpio34 high), both
  lines are still at their power-on levels after the "power off" diagnostic.
\<close>

theorem power_off_stock_repeats_power_on:
  "trace (snd (bebopr_post_init stock_build os_3_8 initial_state))
     = [Uname,
        Gpio_write_value_to_pin_file 38 ''value'' ''1'',
        Gpio_write_value_to_pin_file 34 ''value'' ''0'',
        Stderr (''Turned BEBOPR I/O power on'' @ [CHR 0x0A])]
   \<and> trace (bebopr_exit stock_build os_3_8 (snd (bebopr_post_init stock_build os_3_8 initial_state)))
     = [Uname,
        Gpio_write_value_to_pin_file 38 ''value'' ''1'',
        Gpio_write_value_to_pin_file 34 ''value'' ''0'',
        Stderr (''Turned BEBOPR I/O power on'' @ [CHR 0x0A]),
        Gpio_write_value_to_pin_file 38 ''value'' ''1'',
        Gpio_write_value_to_pin_file 34 ''value'' ''0'',
        Stderr (''Turned BEBOPR I/O power off'' @ [CHR 0x0A])]
   \<and> line_levels powered_down_stock
        (trace (bebopr_exit stock_build os_3_8
                  (snd (bebopr_post_init stock_build os_3_8 initial_state)))) 38 = Some ''1''
   \<and> line_levels powered_down_stock
        (trace (bebopr_exit stock_build os_3_8
                  (snd (bebopr_post_init stock_build os_3_8 initial_state)))) 34 = Some ''0''
   \<and> powered_down_stock 38 = Some ''0''
   \<and> powered_down_stock 34 = Some ''1''"
  by (simp add: bebopr_post_init_def bebopr_exit_def get_kernel_type_def os_3_8_def
      os_answering_def initial_state_def stock_build_def gpio_write_value_to_pin_file_def
      gpio_write_int_value_to_file_def fprintf_stderr_def emit_def Let_def numeral_3_eq_3
      line_levels_def powered_down_stock_def)

text \<open>
  The single-line builds do invert the level they wrote, and on every build the lines
  exported on a 3.2 kernel are set back to inputs and unexported.
\<close>

lemma power_cycle_single_line_3_8:
  "trace (bebopr_exit ena_patch_build os_3_8
            (snd (bebopr_post_init ena_patch_build os_3_8 initial_state)))
     = [Uname,
        Gpio_write_value_to_pin_file 66 ''value'' ''0'',
        Stderr (''Turned BEBOPR I/O power on'' @ [CHR 0x0A]),
        Gpio_write_value_to_pin_file 66 ''value'' ''1'',
        Stderr (''Turned BEBOPR I/O power off'' @ [CHR 0x0A])]"
  by (simp add: bebopr_post_init_def bebopr_exit_def get_kernel_type_def os_3_8_def
      os_answering_def initial_state_def stock_build_def ena_patch_build_def
      gpio_write_value_to_pin_file_def
      gpio_write_int_value_to_file_def fprintf_stderr_def emit_def Let_def numeral_3_eq_3)

lemma power_cycle_single_line_3_2:
  "trace (bebopr_exit ena_patch_build os_3_2
            (snd (bebopr_post_init ena_patch_build os_3_2 initial_state)))
     = [Uname,
        Gpio_write_int_value_to_file ''export'' 66,
        Gpio_write_value_to_pin_file 66 ''direction'' ''out'',
        Gpio_write_value_to_pin_file 66 ''value'' ''0'',
        Stderr (''Turned BEBOPR I/O power on'' @ [CHR 0x0A]),
        Gpio_write_value_to_pin_file 66 ''value'' ''1'',
        Gpio_write_value_to_pin_file 66 ''direction'' ''in'',
        Gpio_write_int_value_to_file ''unexport'' 66,
        Stderr (''Turned BEBOPR I/O power off'' @ [CHR 0x0A])]"
  by (simp add: bebopr_post_init_def bebopr_exit_def get_kernel_type_def os_3_2_def
      os_answering_def initial_state_def stock_build_def ena_patch_build_def
      gpio_write_value_to_pin_file_def
      gpio_write_int_value_to_file_def fprintf_stderr_def emit_def Let_def numeral_3_eq_3)

lemma power_cycle_stock_3_2:
  "trace (bebopr_exit stock_build os_3_2
            (snd (bebopr_post_init stock_build os_3_2 initial_state)))
     = [Uname,
        Gpio_write_int_value_to_file ''export'' 38,
        Gpio_write_value_to_pin_file 38 ''direction'' ''out'',
        Gpio_write_int_value_to_file ''export'' 34,
        Gpio_write_value_to_pin_file 34 ''direction'' ''out'',
        Gpio_write_value_to_pin_file 38 ''value'' ''1'',
        Gpio_write_value_to_pin_file 34 ''value'' ''0'',
        Stderr (''Turned BEBOPR I/O power on'' @ [CHR 0x0A]),
        Gpio_write_value_to_pin_file 38 ''value'' ''1'',
        Gpio_write_value_to_pin_file 34 ''value'' ''0'',
        Gpio_write_value_to_pin_file 38 ''direction'' ''in'',
        Gpio_write_int_value_to_file ''unexport'' 38,
        Gpio_write_value_to_pin_file 34 ''direction'' ''in'',
        Gpio_write_int_value_to_file ''unexport'' 34,
        Stderr (''Turned BEBOPR I/O power off'' @ [CHR 0x0A])]"
  by (simp add: bebopr_post_init_def bebopr_exit_def get_kernel_type_def os_3_2_def
      os_answering_def initial_state_def stock_build_def
      gpio_write_value_to_pin_file_def
      gpio_write_int_value_to_file_def fprintf_stderr_def emit_def Let_def numeral_3_eq_3)

end
